theory Spec2Isabelle
  imports Complex_Main
begin

section \<open>Exceptions\<close>

text \<open>
  The exceptions the two source files can raise themselves (by \<open>assert\<close>,
  \<open>raise\<close>, integer arithmetic and tuple indexing), and \<open>External\<close> for an
  exception raised inside a library or operating-system call (os.mkdir, the CUDA device,
  PIL, numpy, cupy), tagged with a name.
\<close>

datatype exn =
    AssertionError
  | NotImplementedError
  | ZeroDivisionError
  | OverflowError
  | IndexError
  | External string

section \<open>run/optimizer.py\<close>

text \<open>
  In this section and in the model of train.py Python floats are idealised as real
  numbers: \<open>/\<close> on them is exact division, and nothing is rounded. The schedule
  \<open>mu_s\<close> is given once more with the rounding of double precision in the section on
  double precision below. Python's unbounded integers are \<open>int\<close>; \<open>%\<close> is the floor
  modulus, which is \<open>mod\<close> on \<open>int\<close>.

  The fields \<open>__init__\<close> stores before it builds the Adam optimizer.
\<close>

record hyper =
  mu_i :: real
  mu_f :: real
  n :: int
  beta_1 :: real
  beta_2 :: real
  eps :: real

text \<open>
  chainer's Adam optimizer as far as this class touches it: the hyperparameter
  \<open>alpha\<close> (chainer's \<open>optimizer.alpha\<close> reads \<open>optimizer.hyperparam.alpha\<close>,
  so the property \<open>learning_rate\<close> reads the field \<open>anneal_learning_rate\<close>
  writes), the other hyperparameters, the number of update steps taken and the
  parameters it was set up on.
\<close>

record 'p adam =
  alpha :: real
  beta1 :: real
  beta2 :: real
  adam_eps :: real
  t :: nat
  target :: 'p

record 'p Optimizer = hyper +
  optimizer :: "'p adam"

text \<open>
  \<open>mu_s\<close> reads only \<open>mu_i\<close>, \<open>mu_f\<close> and \<open>n\<close>, and \<open>__init__\<close> calls it
  before \<open>self.optimizer\<close> exists, so it is defined on every extension of \<open>hyper\<close>.
  \<open>training_step % self.n\<close> raises ZeroDivisionError when \<open>n\<close> is 0.
\<close>

definition mu_s :: "'a hyper_scheme \<Rightarrow> int \<Rightarrow> exn + real" where
  "mu_s self training_step =
     (if n self = 0 then Inl ZeroDivisionError
      else
        let step_in_cycle_num = training_step mod n self in
        if real_of_int step_in_cycle_num < real_of_int (n self) / 2
        then Inr (mu_f self + (mu_i self - mu_f self) * 2 *
                    (real_of_int step_in_cycle_num / real_of_int (n self)))
        else Inr (mu_f self + (mu_i self - mu_f self) * 2 *
                    (1 - real_of_int step_in_cycle_num / real_of_int (n self))))"

text \<open>\<open>optimizers.Adam(lr, beta1=beta_1, beta2=beta_2, eps=eps)\<close>, set up on the model parameters.\<close>

definition Adam :: "real \<Rightarrow> real \<Rightarrow> real \<Rightarrow> real \<Rightarrow> 'p \<Rightarrow> 'p adam" where
  "Adam lr b1 b2 e model_parameters =
     \<lparr>alpha = lr, beta1 = b1, beta2 = b2, adam_eps = e, t = 0, target = model_parameters\<rparr>"

definition init ::
  "'p \<Rightarrow> real \<Rightarrow> real \<Rightarrow> int \<Rightarrow> real \<Rightarrow> real \<Rightarrow> real \<Rightarrow> exn + 'p Optimizer" where
  "init model_parameters mi mf cycle b1 b2 e =
     (let self = \<lparr>mu_i = mi, mu_f = mf, n = cycle, beta_1 = b1, beta_2 = b2, eps = e\<rparr> in
      case mu_s self 0 of
        Inl err \<Rightarrow> Inl err
      | Inr lr \<Rightarrow> Inr \<lparr>mu_i = mi, mu_f = mf, n = cycle, beta_1 = b1, beta_2 = b2, eps = e,
                         optimizer = Adam lr b1 b2 e model_parameters\<rparr>)"


definition learning_rate :: "'p Optimizer \<Rightarrow> real" where
  "learning_rate self = alpha (optimizer self)"

definition anneal_learning_rate :: "'p Optimizer \<Rightarrow> int \<Rightarrow> exn + 'p Optimizer" where
  "anneal_learning_rate self training_step =
     (case mu_s self training_step of
        Inl err \<Rightarrow> Inl err
      | Inr lr \<Rightarrow> Inr (self\<lparr>optimizer := (optimizer self)\<lparr>alpha := lr\<rparr>\<rparr>))"

text \<open>
  \<open>update\<close>: \<open>self.optimizer.update()\<close> is chainer's Adam step, a parameter
  \<open>adam_update\<close> of the model (any function on the optimizer's state); then the learning
  rate is annealed. When \<open>mu_s\<close> raises, the Adam step has already been taken; the
  exception is all the caller sees.
\<close>

definition update ::
  "('p adam \<Rightarrow> 'p adam) \<Rightarrow> 'p Optimizer \<Rightarrow> int \<Rightarrow> exn + 'p Optimizer" where
  "update adam_update self training_step =
     anneal_learning_rate (self\<lparr>optimizer := adam_update (optimizer self)\<rparr>) training_step"

section \<open>run/train.py\<close>

subsection \<open>Arrays\<close>

text \<open>
  A numpy array is its shape and its elements by index; \<open>ndim\<close> is the length of the
  shape. An index is in bounds when it has one component per axis, each below the axis's
  length; elements outside are never read.
\<close>

record ndarray =
  shape :: "nat list"
  elem :: "nat list \<Rightarrow> real"

definition ndim :: "ndarray \<Rightarrow> nat" where
  "ndim a = length (shape a)"

definition in_bounds :: "nat list \<Rightarrow> nat list \<Rightarrow> bool" where
  "in_bounds shp idx = list_all2 (\<lambda>i d. i < d) idx shp"

text \<open>An arithmetic operation of an array with a scalar works element by element.\<close>

definition map_nd :: "(real \<Rightarrow> real) \<Rightarrow> ndarray \<Rightarrow> ndarray" where
  "map_nd f a = a\<lparr>elem := (\<lambda>idx. f (elem a idx))\<rparr>"

fun index_of :: "nat \<Rightarrow> nat list \<Rightarrow> nat" where
  "index_of m [] = 0"
| "index_of m (a # as) = (if a = m then 0 else Suc (index_of m as))"

text \<open>
  \<open>a.transpose(axes)\<close>: axis \<open>k\<close> of the result is axis \<open>axes[k]\<close> of \<open>a\<close>, so the
  result at \<open>idx\<close> is \<open>a\<close> at the index whose component \<open>axes[k]\<close> is \<open>idx[k]\<close>.
\<close>

definition transpose_nd :: "nat list \<Rightarrow> ndarray \<Rightarrow> ndarray" where
  "transpose_nd axes a =
     \<lparr>shape = map (\<lambda>k. shape a ! k) axes,
      elem = (\<lambda>idx. elem a (map (\<lambda>m. idx ! index_of m axes) [0..<length axes]))\<rparr>"

subsection \<open>preprocess\<close>

text \<open>
  \<open>2**k\<close> for a Python integer \<open>k\<close>: the integer power when \<open>k \<ge> 0\<close>, the float
  \<open>1 / 2**(-k)\<close> when \<open>k < 0\<close>.
\<close>

definition py_pow2 :: "int \<Rightarrow> real" where
  "py_pow2 k = (if 0 \<le> k then 2 ^ nat k else 1 / 2 ^ nat (- k))"

definition preprocess :: "ndarray \<Rightarrow> int \<Rightarrow> exn + ndarray" where
  "preprocess img num_bits_x =
     (let num_bins_x = py_pow2 num_bits_x;
          image1 = (if num_bits_x < 8
                    then map_nd (\<lambda>v. real_of_int \<lfloor>v / py_pow2 (8 - num_bits_x)\<rfloor>) img
                    else img);
          image2 = map_nd (\<lambda>v. v / num_bins_x - 1 / 2) image1
      in if ndim image2 = 3 then Inr (transpose_nd [2, 0, 1] image2)
         else if ndim image2 = 4 then Inr (transpose_nd [0, 3, 1, 2] image2)
         else Inl NotImplementedError)"

subsection \<open>The loss of one batch\<close>

text \<open>
  Lines 178 to 192 of \<open>main\<close>. The encoder's output is the list
  \<open>factorized_z_distribution\<close> of triples \<open>(zi, mean, ln_var)\<close> and \<open>logdet\<close>;
  chainer's \<open>gaussian_nll\<close> and \<open>gaussian_kl_divergence\<close> are parameters, with
  scalar results. The loop carries \<open>(negative_log_likelihood, kld)\<close>, both 0 at the
  start.
\<close>

fun nll_kld_loop ::
  "('z \<Rightarrow> 'm \<Rightarrow> 'v \<Rightarrow> real) \<Rightarrow> ('m \<Rightarrow> 'v \<Rightarrow> real) \<Rightarrow> bool \<Rightarrow>
   ('z \<times> 'm \<times> 'v) list \<Rightarrow> real \<times> real \<Rightarrow> real \<times> real" where
  "nll_kld_loop gaussian_nll gaussian_kl_divergence regularize [] acc = acc"
| "nll_kld_loop gaussian_nll gaussian_kl_divergence regularize ((zi, mean, ln_var) # rest)
     (negative_log_likelihood, kld) =
     nll_kld_loop gaussian_nll gaussian_kl_divergence regularize rest
       (negative_log_likelihood + gaussian_nll zi mean ln_var,
        if regularize then kld + gaussian_kl_divergence mean ln_var else kld)"

record loss_terms =
  loss :: real
  negative_log_likelihood :: real
  kld :: real
  logdet :: real

definition batch_loss ::
  "('z \<Rightarrow> 'm \<Rightarrow> 'v \<Rightarrow> real) \<Rightarrow> ('m \<Rightarrow> 'v \<Rightarrow> real) \<Rightarrow> bool \<Rightarrow> int \<Rightarrow> int \<Rightarrow> int \<Rightarrow>
   ('z \<times> 'm \<times> 'v) list \<Rightarrow> real \<Rightarrow> loss_terms" where
  "batch_loss gaussian_nll gaussian_kl_divergence regularize bsize num_bits num_pixels
     factorized_z_distribution model_logdet =
     (let num_bins_x = py_pow2 num_bits;
          denom = ln 2 * real_of_int num_pixels;
          logdet1 = model_logdet - ln num_bins_x * real_of_int num_pixels;
          (nll, kl) = nll_kld_loop gaussian_nll gaussian_kl_divergence regularize
                        factorized_z_distribution (0, 0);
          loss1 = (nll + kl) / real_of_int bsize - logdet1
      in \<lparr>loss = loss1 / denom, negative_log_likelihood = nll, kld = kl, logdet = logdet1\<rparr>)"

subsection \<open>main\<close>

record args =
  dataset_path :: string
  dataset_format :: string
  snapshot_path :: string
  batch_size :: int
  gpu_device :: int
  total_iteration :: int
  depth_per_level :: int
  levels :: int
  nn_hidden_channels :: int
  num_bits_x :: int
  squeeze_factor :: int
  lu_decomposition :: bool
  regularize_z :: bool

text \<open>
  What the calls that leave the two source files do is a parameter of the model:
  \<open>None\<close> or \<open>Inr\<close> when the call returns, \<open>Some e\<close> or \<open>Inl e\<close> when it raises.
  \<^item> \<open>mkdir\<close>: \<open>os.mkdir(path)\<close>;
  \<^item> \<open>use_device\<close>: \<open>cuda.get_device(d).use()\<close>;
  \<^item> \<open>glob\<close>: the paths \<open>Path(dir).glob(pattern)\<close> yields;
  \<^item> \<open>open_image\<close>: \<open>np.array(Image.open(path)).astype("float32")\<close>;
  \<^item> \<open>np_load\<close>: \<open>np.load(path).astype("float32")\<close>;
  \<^item> \<open>ragged\<close>: \<open>np.asanyarray(images)\<close> on arrays that do not all have the
    same shape (an exception, or the shape of what numpy builds);
  \<^item> \<open>set_up\<close>: lines 128 to 162, which build the dataset, its iterator, the
    hyperparameters, the encoder and the optimizer through the modules glow,
    hyperparams and model, given \<open>images.shape\<close>; what the training loop needs of
    them is \<open>len(iterator)\<close>, the number of batches of one pass over the iterator;
  \<^item> \<open>cuda_to_gpu\<close>: \<open>cuda.to_gpu(array)\<close> for batch \<open>b\<close> of iteration \<open>i\<close>;
  \<^item> \<open>batch_step\<close>: lines 176 to 210 for batch \<open>b\<close> of iteration \<open>i\<close>, given
    whether \<open>xp\<close> is cupy (\<open>gpu_device >= 0\<close>): the noise of \<open>xp\<close> added in
    place to \<open>x\<close>, the forward step, the loss, the backward step, the update;
  \<^item> \<open>save\<close>: \<open>encoder.save(path)\<close>.
\<close>

record world =
  mkdir :: "string \<Rightarrow> exn option"
  use_device :: "int \<Rightarrow> exn option"
  glob :: "string \<Rightarrow> string \<Rightarrow> string list"
  open_image :: "string \<Rightarrow> exn + ndarray"
  np_load :: "string \<Rightarrow> exn + ndarray"
  ragged :: "ndarray list \<Rightarrow> exn + nat list"
  set_up :: "nat list \<Rightarrow> exn + nat"
  cuda_to_gpu :: "nat \<Rightarrow> nat \<Rightarrow> exn option"
  batch_step :: "bool \<Rightarrow> nat \<Rightarrow> nat \<Rightarrow> exn option"
  save :: "exn option"

text \<open>
  The calls \<open>main\<close> makes, in order: the trace of a run. \<open>TrainBatch i b\<close> is the
  body of the batch loop up to the progress line (lines 175 to 210) for batch index
  \<open>b\<close> of iteration \<open>i\<close>, \<open>Report i\<close> the summary line that ends iteration \<open>i\<close>
  (lines 215 to 221), \<open>SaveSnapshot\<close> the call \<open>encoder.save(args.snapshot_path)\<close>.
\<close>

datatype event =
    Mkdir string
  | UseDevice int
  | OpenImage string
  | NpLoad string
  | TrainBatch nat nat
  | Report nat
  | SaveSnapshot

text \<open>
  The two loading loops (lines 108 to 111 and 116 to 119) differ in the call that reads
  the file: \<open>load\<close> is that call and \<open>ev\<close> its event.
\<close>

fun load_files ::
  "(string \<Rightarrow> exn + ndarray) \<Rightarrow> (string \<Rightarrow> event) \<Rightarrow> int \<Rightarrow> string list \<Rightarrow>
   event list \<times> (exn + ndarray list)" where
  "load_files load ev bits [] = ([], Inr [])"
| "load_files load ev bits (filepath # files) =
     (case load filepath of
        Inl e \<Rightarrow> ([ev filepath], Inl e)
      | Inr img \<Rightarrow>
          (case preprocess img bits of
             Inl e \<Rightarrow> ([ev filepath], Inl e)
           | Inr img' \<Rightarrow>
               (case load_files load ev bits files of
                  (tr, Inl e) \<Rightarrow> (ev filepath # tr, Inl e)
                | (tr, Inr images) \<Rightarrow> (ev filepath # tr, Inr (img' # images)))))"

text \<open>Lines 103 to 126: the two assertions and the loading loops.\<close>

definition load_dataset :: "args \<Rightarrow> world \<Rightarrow> event list \<times> (exn + ndarray list)" where
  "load_dataset a w =
     (if dataset_format a \<notin> set [''png'', ''npy''] then ([], Inl AssertionError)
      else
        let files = glob w (dataset_path a) (''*.'' @ dataset_format a) in
        if dataset_format a = ''png'' then
          (case load_files (open_image w) OpenImage (num_bits_x a) files of
             (tr, Inl e) \<Rightarrow> (tr, Inl e)
           | (tr, Inr images) \<Rightarrow>
               if length images > 0 then (tr, Inr images) else (tr, Inl AssertionError))
        else if dataset_format a = ''npy'' then
          (case load_files (np_load w) NpLoad (num_bits_x a) files of
             (tr, Inl e) \<Rightarrow> (tr, Inl e)
           | (tr, Inr images) \<Rightarrow>
               if length images > 0 then (tr, Inr images) else (tr, Inl AssertionError))
        else ([], Inl NotImplementedError))"

text \<open>
  The batch loop of one iteration (lines 174 to 213), over the batch indices
  \<open>enumerate\<close> hands out.
\<close>

fun batch_loop :: "nat \<Rightarrow> nat list \<Rightarrow> event list" where
  "batch_loop iteration [] = []"
| "batch_loop iteration (batch_index # rest) =
     TrainBatch iteration batch_index #
     (if (batch_index + 1) mod 100 = 0 then [SaveSnapshot] else []) @
     batch_loop iteration rest"

text \<open>
  One iteration (lines 169 to 222). After the batch loop, line 215 divides by
  \<open>len(iterator)\<close>: with no batch, \<open>sum_nll\<close> is still the integer 0 and the division
  raises ZeroDivisionError before the summary and the save.
\<close>

definition run_iteration :: "nat \<Rightarrow> nat \<Rightarrow> event list \<times> exn option" where
  "run_iteration num_batches iteration =
     (let tr = batch_loop iteration [0..<num_batches] in
      if num_batches = 0 then (tr, Some ZeroDivisionError)
      else (tr @ [Report iteration, SaveSnapshot], None))"

fun training_loop :: "nat \<Rightarrow> nat list \<Rightarrow> event list \<times> exn option" where
  "training_loop num_batches [] = ([], None)"
| "training_loop num_batches (iteration # rest) =
     (case run_iteration num_batches iteration of
        (tr, Some e) \<Rightarrow> (tr, Some e)
      | (tr, None) \<Rightarrow>
          (case training_loop num_batches rest of (tr', r) \<Rightarrow> (tr @ tr', r)))"

text \<open>
  The functions \<open>batch_loop\<close>, \<open>run_iteration\<close> and \<open>training_loop\<close> give the
  calls of the training loop in order when each of them returns. A call that raises ends
  the run there, since the loop has no handler: \<open>run_until_failure\<close> cuts the trace after
  the first call that raises and hands its exception on.
\<close>

fun run_until_failure ::
  "(event \<Rightarrow> exn option) \<Rightarrow> event list \<Rightarrow> event list \<times> exn option" where
  "run_until_failure raises [] = ([], None)"
| "run_until_failure raises (e # es) =
     (case raises e of
        Some x \<Rightarrow> ([e], Some x)
      | None \<Rightarrow> (case run_until_failure raises es of (tr, r) \<Rightarrow> (e # tr, r)))"

text \<open>
  \<open>to_gpu\<close> (lines 40 to 43) tests \<open>isinstance(array, np.ndarray)\<close>: a numpy array
  goes through \<open>cuda.to_gpu\<close>, whatever device \<open>main\<close> selected, and comes back as a
  cupy array unless that call raises; any other array is returned as it is.
\<close>

datatype array_kind = NumpyArray | CupyArray

definition to_gpu :: "exn option \<Rightarrow> array_kind \<Rightarrow> exn + array_kind" where
  "to_gpu cuda_call array =
     (if array = NumpyArray
      then (case cuda_call of Some e \<Rightarrow> Inl e | None \<Rightarrow> Inr CupyArray)
      else Inr array)"

text \<open>
  Lines 175 to 210, one batch: the dataset holds the numpy array \<open>images\<close>, so line 175
  hands \<open>to_gpu\<close> a numpy array; the rest of the body works on its result.
\<close>

definition train_batch :: "world \<Rightarrow> bool \<Rightarrow> nat \<Rightarrow> nat \<Rightarrow> exn option" where
  "train_batch w using_gpu i b =
     (case to_gpu (cuda_to_gpu w i b) NumpyArray of
        Inl e \<Rightarrow> Some e
      | Inr x \<Rightarrow> batch_step w using_gpu i b)"

fun call_raises :: "world \<Rightarrow> bool \<Rightarrow> event \<Rightarrow> exn option" where
  "call_raises w using_gpu (TrainBatch i b) = train_batch w using_gpu i b"
| "call_raises w using_gpu SaveSnapshot = save w"
| "call_raises w using_gpu e = None"

text \<open>
  \<open>images.shape\<close> after lines 113 and 121 to 124. \<open>np.asanyarray\<close> stacks arrays of
  one shape along a new first axis. For "npy" the first two axes are then merged:
  \<open>images.reshape((num_files * images.shape[1],) + images.shape[2:])\<close>, where
  \<open>images.shape[1]\<close> raises IndexError on a shape with fewer than two entries.
\<close>

definition asanyarray_shape :: "world \<Rightarrow> ndarray list \<Rightarrow> exn + nat list" where
  "asanyarray_shape w images =
     (if list_all (\<lambda>arr. shape arr = shape (hd images)) images
      then Inr (length images # shape (hd images))
      else ragged w images)"

definition images_shape :: "args \<Rightarrow> world \<Rightarrow> ndarray list \<Rightarrow> exn + nat list" where
  "images_shape a w images =
     (case asanyarray_shape w images of
        Inl e \<Rightarrow> Inl e
      | Inr shp \<Rightarrow>
          if dataset_format a = ''npy''
          then (if length shp < 2 then Inl IndexError
                else Inr ((length images * shp ! 1) # drop 2 shp))
          else Inr shp)"

text \<open>
  \<open>main\<close> after the directory is dealt with: device selection when
  \<open>gpu_device >= 0\<close>, the dataset and its shape, the set-up, \<open>num_pixels\<close> (line 165:
  \<open>hyperparams.image_size\<close> is \<open>images.shape[2:]\<close>, and indexing its entries 0 and 1
  raises IndexError when it has fewer than two), and \<open>range(total_iteration)\<close>
  iterations.
\<close>

definition main_body :: "args \<Rightarrow> world \<Rightarrow> event list \<times> exn option" where
  "main_body a w =
     (let (tr1, r1) = (if gpu_device a \<ge> 0
                       then ([UseDevice (gpu_device a)], use_device w (gpu_device a))
                       else ([], None))
      in case r1 of
           Some e \<Rightarrow> (tr1, Some e)
         | None \<Rightarrow>
             (case load_dataset a w of
                (tr2, Inl e) \<Rightarrow> (tr1 @ tr2, Some e)
              | (tr2, Inr images) \<Rightarrow>
                  (case images_shape a w images of
                     Inl e \<Rightarrow> (tr1 @ tr2, Some e)
                   | Inr shp \<Rightarrow>
                       (case set_up w shp of
                          Inl e \<Rightarrow> (tr1 @ tr2, Some e)
                        | Inr num_batches \<Rightarrow>
                            if length (drop 2 shp) < 2 then (tr1 @ tr2, Some IndexError)
                            else
                              (case training_loop num_batches
                                      [0..<nat (total_iteration a)] of
                                 (tr3, r3) \<Rightarrow>
                                   (case run_until_failure
                                           (call_raises w (gpu_device a \<ge> 0)) tr3 of
                                      (tr3', Some e) \<Rightarrow> (tr1 @ tr2 @ tr3', Some e)
                                    | (tr3', None) \<Rightarrow> (tr1 @ tr2 @ tr3', r3)))))))"

text \<open>
  Lines 90 to 93: \<open>try: os.mkdir(args.snapshot_path)\<close>, \<open>except: pass\<close>. Whether the
  call returns or raises, \<open>main\<close> goes on with line 95.
\<close>

definition main :: "args \<Rightarrow> world \<Rightarrow> event list \<times> exn option" where
  "main a w =
     (case mkdir w (snapshot_path a) of
        None \<Rightarrow> (case main_body a w of (tr, r) \<Rightarrow> (Mkdir (snapshot_path a) # tr, r))
      | Some e \<Rightarrow> (case main_body a w of (tr, r) \<Rightarrow> (Mkdir (snapshot_path a) # tr, r)))"

subsection \<open>Reading a trace\<close>

text \<open>
  \<open>save_due e\<close>: a save is due right after the event \<open>e\<close>, which is a batch whose
  index plus one is a multiple of 100, or the summary that ends an iteration.
  \<open>periodic due tr\<close>: in the trace \<open>tr\<close> a save stands exactly where one is due, and
  none is due after its last event; \<open>due\<close> tells whether one is due at its head.
\<close>

fun save_due :: "event \<Rightarrow> bool" where
  "save_due (TrainBatch i b) = ((b + 1) mod 100 = 0)"
| "save_due (Report i) = True"
| "save_due _ = False"

fun periodic :: "bool \<Rightarrow> event list \<Rightarrow> bool" where
  "periodic due [] = (\<not> due)"
| "periodic due (e # es) = ((e = SaveSnapshot) = due \<and> periodic (save_due e) es)"

subsection \<open>An example run\<close>

text \<open>
  Arguments and an environment for concrete runs: the snapshot directory exists already,
  so \<open>os.mkdir\<close> raises; only device 0 can be selected; the dataset directory holds
  one PNG file, an image of one pixel with three channels; one pass over the iterator has
  one batch; \<open>cuda.to_gpu\<close> returns; and a batch goes through when \<open>xp\<close> is cupy,
  while with \<open>xp = np\<close> cupy refuses the numpy noise of line 176.
\<close>

definition example_args :: args where
  "example_args =
     \<lparr>dataset_path = ''data'', dataset_format = ''png'', snapshot_path = ''snapshot'',
      batch_size = 32, gpu_device = - 1, total_iteration = 1, depth_per_level = 32,
      levels = 5, nn_hidden_channels = 512, num_bits_x = 8, squeeze_factor = 2,
      lu_decomposition = False, regularize_z = False\<rparr>"

definition example_world :: world where
  "example_world =
     \<lparr>mkdir = (\<lambda>path. Some (External ''FileExistsError'')),
      use_device = (\<lambda>d. if d = 0 then None else Some (External ''CUDARuntimeError'')),
      glob = (\<lambda>dir pattern. if pattern = ''*.png'' then [''a.png''] else []),
      open_image = (\<lambda>path. Inr \<lparr>shape = [1, 1, 3], elem = (\<lambda>idx. 0)\<rparr>),
      np_load = (\<lambda>path. Inl (External ''FileNotFoundError'')),
      ragged = (\<lambda>images. Inl (External ''ValueError'')),
      set_up = (\<lambda>shp. Inr 1),
      cuda_to_gpu = (\<lambda>i b. None),
      batch_step = (\<lambda>using_gpu i b. if using_gpu then None else Some (External ''TypeError'')),
      save = None\<rparr>"

section \<open>The schedule in double precision\<close>








section \<open>The learning-rate schedule\<close>







subsection \<open>The schedule as computed\<close>























section \<open>The optimizer's learning rate\<close>

lemma mu_s_returns: "n self \<noteq> 0 \<Longrightarrow> \<exists>lr. mu_s self s = Inr lr"
  by (simp add: mu_s_def Let_def)

lemma mu_s_fields:
  "mu_i a = mu_i b \<Longrightarrow> mu_f a = mu_f b \<Longrightarrow> n a = n b \<Longrightarrow> mu_s a s = mu_s b s"
  by (simp add: mu_s_def Let_def)

lemma mu_s_more: "mu_s (self\<lparr>optimizer := opt\<rparr>) s = mu_s self s"
  by (rule mu_s_fields) simp_all

text \<open>
  C4. \<open>update\<close> takes the Adam step and then sets the learning rate to
  \<open>mu_s training_step\<close>. With \<open>n \<noteq> 0\<close>: the constructor returns an optimizer whose
  learning rate is \<open>mu_s 0\<close>, and \<open>update s\<close> returns the optimizer after the Adam step
  with \<open>alpha\<close> replaced by \<open>mu_s s\<close>, so its learning rate is \<open>mu_s s\<close>.
\<close>

theorem update_learning_rate:
  "(cycle \<noteq> 0 \<longrightarrow>
      (\<exists>new. init model_parameters mi mf cycle b1 b2 e = Inr new
             \<and> n new = cycle \<and> mu_s new 0 = Inr (learning_rate new)))
   \<and> (n self \<noteq> 0 \<longrightarrow>
      (\<exists>self' lr. update adam_update self s = Inr self'
             \<and> self' = self\<lparr>optimizer := (adam_update (optimizer self))\<lparr>alpha := lr\<rparr>\<rparr>
             \<and> mu_s self s = Inr lr \<and> mu_s self' s = Inr lr
             \<and> learning_rate self' = lr))"
proof (intro conjI impI)
  assume nz: "cycle \<noteq> 0"
  let ?h = "\<lparr>mu_i = mi, mu_f = mf, n = cycle, beta_1 = b1, beta_2 = b2, eps = e\<rparr>"
  from nz obtain lr where lr: "mu_s ?h 0 = Inr lr"
    using mu_s_returns [of ?h 0] by auto
  let ?new = "\<lparr>mu_i = mi, mu_f = mf, n = cycle, beta_1 = b1, beta_2 = b2, eps = e,
               optimizer = Adam lr b1 b2 e model_parameters\<rparr>"
  have "init model_parameters mi mf cycle b1 b2 e = Inr ?new"
    using lr by (simp add: init_def)
  moreover have "mu_s ?new 0 = Inr lr"
    using lr mu_s_fields [of ?new ?h 0] by simp
  moreover have "learning_rate ?new = lr"
    by (simp add: learning_rate_def Adam_def)
  ultimately show "\<exists>new. init model_parameters mi mf cycle b1 b2 e = Inr new
      \<and> n new = cycle \<and> mu_s new 0 = Inr (learning_rate new)"
    by simp
next
  assume nz: "n self \<noteq> 0"
  then obtain lr where lr: "mu_s self s = Inr lr"
    using mu_s_returns by blast
  let ?self' = "self\<lparr>optimizer := (adam_update (optimizer self))\<lparr>alpha := lr\<rparr>\<rparr>"
  have "update adam_update self s = Inr ?self'"
    using lr by (simp add: update_def anneal_learning_rate_def mu_s_more)
  moreover have "mu_s ?self' s = Inr lr"
    using lr by (simp add: mu_s_more)
  moreover have "learning_rate ?self' = lr"
    by (simp add: learning_rate_def)
  ultimately show "\<exists>self' lr. update adam_update self s = Inr self'
      \<and> self' = self\<lparr>optimizer := (adam_update (optimizer self))\<lparr>alpha := lr\<rparr>\<rparr>
      \<and> mu_s self s = Inr lr \<and> mu_s self' s = Inr lr \<and> learning_rate self' = lr"
    using lr by blast
qed

theorem update_learning_rate_witness:
  "(\<exists>new. init () 3 1 4 0 0 0 = Inr new \<and> learning_rate new = 1)
   \<and> (\<exists>self'. update (\<lambda>opt. opt\<lparr>t := Suc (t opt)\<rparr>)
                  \<lparr>mu_i = 3, mu_f = 1, n = 4, beta_1 = 0, beta_2 = 0, eps = 0,
                    optimizer = Adam 1 0 0 0 ()\<rparr> 6 = Inr self'
          \<and> learning_rate self' = 3 \<and> t (optimizer self') = 1)"
  using update_learning_rate
    [where cycle = 4 and model_parameters = "()" and mi = 3 and mf = 1 and ?b1.0 = 0
       and ?b2.0 = 0 and e = 0 and s = 6
       and adam_update = "\<lambda>opt. opt\<lparr>t := Suc (t opt)\<rparr>"
       and self = "\<lparr>mu_i = 3, mu_f = 1, n = 4, beta_1 = 0, beta_2 = 0, eps = 0,
                     optimizer = Adam 1 0 0 0 ()\<rparr>"]
  by (auto simp add: init_def mu_s_def Adam_def learning_rate_def)




section \<open>preprocess\<close>

lemma preprocess_shape_elem:
  "preprocess img b =
     (if length (shape img) = 3 then
        Inr \<lparr>shape = [shape img ! 2, shape img ! 0, shape img ! 1],
             elem = (\<lambda>idx. (if b < 8 then real_of_int \<lfloor>elem img [idx ! 1, idx ! 2, idx ! 0] / py_pow2 (8 - b)\<rfloor>
                              else elem img [idx ! 1, idx ! 2, idx ! 0]) / py_pow2 b - 1 / 2)\<rparr>
      else if length (shape img) = 4 then
        Inr \<lparr>shape = [shape img ! 0, shape img ! 3, shape img ! 1, shape img ! 2],
             elem = (\<lambda>idx. (if b < 8 then real_of_int \<lfloor>elem img [idx ! 0, idx ! 2, idx ! 3, idx ! 1] / py_pow2 (8 - b)\<rfloor>
                              else elem img [idx ! 0, idx ! 2, idx ! 3, idx ! 1]) / py_pow2 b - 1 / 2)\<rparr>
      else Inl NotImplementedError)"
  by (simp add: preprocess_def Let_def ndim_def map_nd_def transpose_nd_def upt_rec [of 0]
      upt_rec [of 1] upt_rec [of 2] upt_rec [of 3] numeral_2_eq_2 numeral_3_eq_3)

lemma quantize_range:
  assumes b: "1 \<le> b" "b \<le> 8" and v: "0 \<le> v" "v < 256"
  shows "- (1 / 2) \<le> (if b < 8 then real_of_int \<lfloor>v / py_pow2 (8 - b)\<rfloor> else v) / py_pow2 b - 1 / 2
       \<and> (if b < 8 then real_of_int \<lfloor>v / py_pow2 (8 - b)\<rfloor> else v) / py_pow2 b - 1 / 2 < 1 / 2"
proof -
  define k where "k = nat b"
  have k: "k \<le> 8" "b = int k" using b by (simp_all add: k_def)
  have pb: "py_pow2 b = 2 ^ k" using b by (simp add: py_pow2_def k_def)
  have pc: "py_pow2 (8 - b) = 2 ^ (8 - k)"
    using b by (simp add: py_pow2_def k_def nat_diff_distrib)
  have split: "(2::real) ^ (8 - k) * 2 ^ k = 256"
    using k(1) by (simp add: power_add [symmetric])
  define x where "x = (if b < 8 then real_of_int \<lfloor>v / py_pow2 (8 - b)\<rfloor> else v)"
  have x0: "0 \<le> x" using v(1) by (simp add: x_def pc)
  have x1: "x < 2 ^ k"
  proof (cases "b < 8")
    case True
    have "v / 2 ^ (8 - k) < 2 ^ k"
      using v(2) split by (simp add: field_simps)
    then have "\<lfloor>v / 2 ^ (8 - k)\<rfloor> < 2 ^ k"
      by (simp add: floor_less_iff)
    then have "real_of_int \<lfloor>v / 2 ^ (8 - k)\<rfloor> < real_of_int (2 ^ k)"
      by (simp only: of_int_less_iff)
    then show ?thesis using True by (simp add: x_def pc)
  next
    case False
    then have "k = 8" using k by simp
    then show ?thesis using False v(2) by (simp add: x_def)
  qed
  have "0 \<le> x / 2 ^ k" using x0 by simp
  moreover have "x / 2 ^ k < 1" using x1 by simp
  ultimately show ?thesis
    unfolding x_def [symmetric] pb by linarith
qed

lemma in_bounds3:
  "in_bounds [d0, d1, d2] idx = (\<exists>i j k. idx = [i, j, k] \<and> i < d0 \<and> j < d1 \<and> k < d2)"
  by (auto simp add: in_bounds_def list_all2_Cons2)

lemma in_bounds4:
  "in_bounds [d0, d1, d2, d3] idx =
     (\<exists>i j k l. idx = [i, j, k, l] \<and> i < d0 \<and> j < d1 \<and> k < d2 \<and> l < d3)"
  by (auto simp add: in_bounds_def list_all2_Cons2)

lemma shape3: "length (s::nat list) = 3 \<Longrightarrow> s = [s ! 0, s ! 1, s ! 2]"
  by (cases s; cases "tl s"; cases "tl (tl s)") auto

lemma shape4: "length (s::nat list) = 4 \<Longrightarrow> s = [s ! 0, s ! 1, s ! 2, s ! 3]"
  by (cases s; cases "tl s"; cases "tl (tl s)"; cases "tl (tl (tl s))") auto

text \<open>
  C6. For an image of 3 or 4 dimensions whose pixels lie in \<open>[0, 256)\<close> and
  \<open>1 \<le> num_bits_x \<le> 8\<close>, \<open>preprocess\<close> returns an array whose values all lie in
  \<open>[-0.5, 0.5)\<close>; each value is the pixel, floored after division by
  \<open>2^(8 - num_bits_x)\<close> when \<open>num_bits_x < 8\<close>, divided by \<open>2^num_bits_x\<close> and
  shifted by \<open>-0.5\<close>; and the channel axis has moved from last to first: shape
  \<open>(H, W, C)\<close> becomes \<open>(C, H, W)\<close> with \<open>out[c, h, w]\<close> from \<open>image[h, w, c]\<close>, and
  \<open>(N, H, W, C)\<close> becomes \<open>(N, C, H, W)\<close> with \<open>out[m, c, h, w]\<close> from
  \<open>image[m, h, w, c]\<close>.
\<close>

theorem preprocess_normalizes:
  assumes bits: "1 \<le> b" "b \<le> 8"
    and dims: "ndim img = 3 \<or> ndim img = 4"
    and pixels: "\<forall>idx. in_bounds (shape img) idx \<longrightarrow> 0 \<le> elem img idx \<and> elem img idx < 256"
  shows "\<exists>out. preprocess img b = Inr out
      \<and> (\<forall>idx. in_bounds (shape out) idx \<longrightarrow> - (1 / 2) \<le> elem out idx \<and> elem out idx < 1 / 2)
      \<and> (ndim img = 3 \<longrightarrow>
            shape out = [shape img ! 2, shape img ! 0, shape img ! 1]
          \<and> (\<forall>c h w. elem out [c, h, w] =
                (if b < 8 then real_of_int \<lfloor>elem img [h, w, c] / 2 ^ nat (8 - b)\<rfloor>
                 else elem img [h, w, c]) / 2 ^ nat b - 1 / 2))
      \<and> (ndim img = 4 \<longrightarrow>
            shape out = [shape img ! 0, shape img ! 3, shape img ! 1, shape img ! 2]
          \<and> (\<forall>m c h w. elem out [m, c, h, w] =
                (if b < 8 then real_of_int \<lfloor>elem img [m, h, w, c] / 2 ^ nat (8 - b)\<rfloor>
                 else elem img [m, h, w, c]) / 2 ^ nat b - 1 / 2))"
proof -
  have pb: "py_pow2 b = 2 ^ nat b" using bits by (simp add: py_pow2_def)
  have pc: "py_pow2 (8 - b) = 2 ^ nat (8 - b)" using bits by (simp add: py_pow2_def)
  from dims show ?thesis
  proof
    assume d3: "ndim img = 3"
    then have len: "length (shape img) = 3" by (simp add: ndim_def)
    note sh = shape3 [OF len]
    let ?out = "\<lparr>shape = [shape img ! 2, shape img ! 0, shape img ! 1],
             elem = (\<lambda>idx. (if b < 8 then real_of_int \<lfloor>elem img [idx ! 1, idx ! 2, idx ! 0] / py_pow2 (8 - b)\<rfloor>
                              else elem img [idx ! 1, idx ! 2, idx ! 0]) / py_pow2 b - 1 / 2)\<rparr>"
    have out: "preprocess img b = Inr ?out"
      using len by (simp add: preprocess_shape_elem)
    have range: "- (1 / 2) \<le> elem ?out idx \<and> elem ?out idx < 1 / 2"
      if "in_bounds (shape ?out) idx" for idx
    proof -
      from that obtain c h w where idx: "idx = [c, h, w]"
        and lt: "c < shape img ! 2" "h < shape img ! 0" "w < shape img ! 1"
        by (auto simp add: in_bounds3)
      have "in_bounds (shape img) [h, w, c]"
        using lt by (subst sh) (simp add: in_bounds3)
      with pixels have pix: "0 \<le> elem img [h, w, c] \<and> elem img [h, w, c] < 256" by blast
      have e: "elem ?out idx =
                 (if b < 8 then real_of_int \<lfloor>elem img [h, w, c] / py_pow2 (8 - b)\<rfloor>
                  else elem img [h, w, c]) / py_pow2 b - 1 / 2"
        by (simp add: idx)
      from pix show ?thesis
        unfolding e using quantize_range [OF bits, of "elem img [h, w, c]"] by blast
    qed
    have vals: "elem ?out [c, h, w] =
                (if b < 8 then real_of_int \<lfloor>elem img [h, w, c] / 2 ^ nat (8 - b)\<rfloor>
                 else elem img [h, w, c]) / 2 ^ nat b - 1 / 2" for c h w
      by (simp add: pb pc)
    show ?thesis
      using out range vals d3 by (intro exI [of _ ?out]) simp
  next
    assume d4: "ndim img = 4"
    then have len: "length (shape img) = 4" by (simp add: ndim_def)
    note sh = shape4 [OF len]
    let ?out = "\<lparr>shape = [shape img ! 0, shape img ! 3, shape img ! 1, shape img ! 2],
             elem = (\<lambda>idx. (if b < 8 then real_of_int \<lfloor>elem img [idx ! 0, idx ! 2, idx ! 3, idx ! 1] / py_pow2 (8 - b)\<rfloor>
                              else elem img [idx ! 0, idx ! 2, idx ! 3, idx ! 1]) / py_pow2 b - 1 / 2)\<rparr>"
    have out: "preprocess img b = Inr ?out"
      using len by (simp add: preprocess_shape_elem)
    have range: "- (1 / 2) \<le> elem ?out idx \<and> elem ?out idx < 1 / 2"
      if "in_bounds (shape ?out) idx" for idx
    proof -
      from that obtain m c h w where idx: "idx = [m, c, h, w]"
        and lt: "m < shape img ! 0" "c < shape img ! 3" "h < shape img ! 1" "w < shape img ! 2"
        by (auto simp add: in_bounds4)
      have "in_bounds (shape img) [m, h, w, c]"
        using lt by (subst sh) (simp add: in_bounds4)
      with pixels have pix: "0 \<le> elem img [m, h, w, c] \<and> elem img [m, h, w, c] < 256" by blast
      have e: "elem ?out idx =
                 (if b < 8 then real_of_int \<lfloor>elem img [m, h, w, c] / py_pow2 (8 - b)\<rfloor>
                  else elem img [m, h, w, c]) / py_pow2 b - 1 / 2"
        by (simp add: idx)
      from pix show ?thesis
        unfolding e using quantize_range [OF bits, of "elem img [m, h, w, c]"] by blast
    qed
    have vals: "elem ?out [m, c, h, w] =
                (if b < 8 then real_of_int \<lfloor>elem img [m, h, w, c] / 2 ^ nat (8 - b)\<rfloor>
                 else elem img [m, h, w, c]) / 2 ^ nat b - 1 / 2" for m c h w
      by (simp add: pb pc)
    show ?thesis
      using out range vals d4 by (intro exI [of _ ?out]) simp
  qed
qed

theorem preprocess_normalizes_witness:
  "\<exists>out. preprocess \<lparr>shape = [1, 2, 3], elem = (\<lambda>idx. real (idx ! 2) * 100)\<rparr> 5 = Inr out
      \<and> shape out = [3, 1, 2] \<and> elem out [2, 0, 1] = 9 / 32
      \<and> - (1 / 2) \<le> elem out [2, 0, 1] \<and> elem out [2, 0, 1] < 1 / 2"
proof -
  let ?img = "\<lparr>shape = [1, 2, 3], elem = (\<lambda>idx. real (idx ! 2) * 100)\<rparr>"
  have d: "ndim ?img = 3 \<or> ndim ?img = 4" by (simp add: ndim_def)
  have p: "\<forall>idx. in_bounds (shape ?img) idx \<longrightarrow> 0 \<le> elem ?img idx \<and> elem ?img idx < 256"
    by (auto simp add: in_bounds3)
  have b: "(1::int) \<le> 5" "(5::int) \<le> 8" by simp_all
  from preprocess_normalizes [OF b d p] obtain out where
    out: "preprocess ?img 5 = Inr out"
    and sh: "shape out = [3, 1, 2]"
    and v: "elem out [2, 0, 1] = 9 / 32"
    by (auto simp add: ndim_def)
  from out sh v show ?thesis by simp
qed

text \<open>
  C9. \<open>preprocess\<close> raises NotImplementedError exactly when its input has a number of
  dimensions other than 3 or 4; on inputs of 3 or 4 dimensions it returns an array; and
  it raises nothing else.
\<close>

theorem preprocess_raises:
  "(preprocess img b = Inl NotImplementedError) = (ndim img \<noteq> 3 \<and> ndim img \<noteq> 4)
   \<and> ((ndim img = 3 \<or> ndim img = 4) \<longrightarrow> (\<exists>out. preprocess img b = Inr out))
   \<and> (\<forall>e. preprocess img b = Inl e \<longrightarrow> e = NotImplementedError)"
  by (simp add: preprocess_shape_elem ndim_def)


theorem preprocess_raises_witness:
  "preprocess \<lparr>shape = [2, 2], elem = (\<lambda>idx. 0)\<rparr> 8 = Inl NotImplementedError
   \<and> (\<exists>out. preprocess \<lparr>shape = [1, 1, 3], elem = (\<lambda>idx. 0)\<rparr> 8 = Inr out)"
  using preprocess_raises [of "\<lparr>shape = [2, 2], elem = (\<lambda>idx. 0)\<rparr>" 8]
    preprocess_raises [of "\<lparr>shape = [1, 1, 3], elem = (\<lambda>idx. 0)\<rparr>" 8]
  by (simp add: ndim_def)

section \<open>The loss\<close>

lemma nll_kld_loop_sums:
  "nll_kld_loop gn gk reg fz (a, k) =
     (a + (\<Sum>(zi, mean, ln_var)\<leftarrow>fz. gn zi mean ln_var),
      k + (if reg then (\<Sum>(zi, mean, ln_var)\<leftarrow>fz. gk mean ln_var) else 0))"
  by (induction fz arbitrary: a k) auto

text \<open>
  C3. The loss of a batch is
  \<open>((sum of gaussian_nll(zi, mean, ln_var)) + kld) / batch_size - logdet\<close>, divided by
  \<open>log(2) * num_pixels\<close>, where \<open>logdet\<close> is the model's log-determinant minus
  \<open>log(num_bins_x) * num_pixels\<close> with \<open>num_bins_x = 2**num_bits_x\<close>, and \<open>kld\<close>
  is the sum of \<open>gaussian_kl_divergence(mean, ln_var)\<close> when \<open>regularize_z\<close> is set
  and 0 when it is not. (The divisors \<open>batch_size\<close> and \<open>num_pixels\<close> are not 0.)
\<close>

theorem batch_loss_formula:
  assumes "bsize \<noteq> 0" and "num_pixels \<noteq> 0"
  shows "loss (batch_loss gn gk reg bsize bits num_pixels fz ld) =
           (((\<Sum>(zi, mean, ln_var)\<leftarrow>fz. gn zi mean ln_var)
               + kld (batch_loss gn gk reg bsize bits num_pixels fz ld)) / real_of_int bsize
            - logdet (batch_loss gn gk reg bsize bits num_pixels fz ld))
           / (ln 2 * real_of_int num_pixels)
       \<and> logdet (batch_loss gn gk reg bsize bits num_pixels fz ld) =
           ld - ln (py_pow2 bits) * real_of_int num_pixels
       \<and> kld (batch_loss gn gk reg bsize bits num_pixels fz ld) =
           (if reg then (\<Sum>(zi, mean, ln_var)\<leftarrow>fz. gk mean ln_var) else 0)"
  by (simp add: batch_loss_def Let_def nll_kld_loop_sums)

theorem batch_loss_formula_witness:
  "kld (batch_loss (\<lambda>z m v. z) (\<lambda>m v. m) True 2 8 3 [(1, 2, 3 :: real), (4, 5, 6)] 0) = 7
   \<and> kld (batch_loss (\<lambda>z m v. z) (\<lambda>m v. m) False 2 8 3 [(1, 2, 3 :: real), (4, 5, 6)] 0) = 0
   \<and> loss (batch_loss (\<lambda>z m v. z) (\<lambda>m v. m) False 2 8 3 [(1, 2, 3 :: real), (4, 5, 6)] 0)
       = (5 / 2 + ln 256 * 3) / (ln 2 * 3)"
  using batch_loss_formula [of 2 3 "\<lambda>z m v. z" "\<lambda>m v. m" True 8 "[(1, 2, 3 :: real), (4, 5, 6)]" 0]
    batch_loss_formula [of 2 3 "\<lambda>z m v. z" "\<lambda>m v. m" False 8 "[(1, 2, 3 :: real), (4, 5, 6)]" 0]
  by (simp add: py_pow2_def)

section \<open>Checkpointing\<close>

lemma periodic_batch_loop:
  "periodic False (batch_loop i bs @ rest) = periodic False rest"
  by (induction bs) auto

lemma periodic_iterations:
  "periodic False
     (concat (map (\<lambda>i. batch_loop i bs @ [Report i, SaveSnapshot]) its) @ rest)
   = periodic False rest"
  by (induction its) (auto simp add: periodic_batch_loop)

lemma periodic_next:
  "periodic due tr \<Longrightarrow> j < length tr \<Longrightarrow> save_due (tr ! j) \<Longrightarrow>
   Suc j < length tr \<and> tr ! Suc j = SaveSnapshot"
proof (induction tr arbitrary: due j)
  case Nil
  then show ?case by simp
next
  case (Cons e es)
  show ?case
  proof (cases j)
    case 0
    with Cons.prems have "periodic True es" by simp
    then show ?thesis using 0 by (cases es) auto
  next
    case (Suc k)
    with Cons.prems have "periodic (save_due e) es" "k < length es" "save_due (es ! k)"
      by simp_all
    from Cons.IH [OF this] show ?thesis using Suc by simp
  qed
qed

lemma periodic_prev:
  "periodic due tr \<Longrightarrow> j < length tr \<Longrightarrow> tr ! j = SaveSnapshot \<Longrightarrow>
   (if j = 0 then due else save_due (tr ! (j - 1)))"
proof (induction tr arbitrary: due j)
  case Nil
  then show ?case by simp
next
  case (Cons e es)
  show ?case
  proof (cases j)
    case 0
    with Cons.prems show ?thesis by simp
  next
    case (Suc k)
    with Cons.prems have "periodic (save_due e) es" "k < length es" "es ! k = SaveSnapshot"
      by simp_all
    from Cons.IH [OF this] show ?thesis using Suc by (cases k) auto
  qed
qed

lemma save_due_cases:
  "save_due e = ((\<exists>i b. e = TrainBatch i b \<and> (b + 1) mod 100 = 0) \<or> (\<exists>i. e = Report i))"
  by (cases e) auto

lemma batch_loop_covers: "b \<in> set bs \<Longrightarrow> TrainBatch i b \<in> set (batch_loop i bs)"
  by (induction bs) auto

lemma training_loop_trace:
  "0 < num_batches \<Longrightarrow>
   training_loop num_batches its =
     (concat (map (\<lambda>i. batch_loop i [0..<num_batches] @ [Report i, SaveSnapshot]) its), None)"
  by (induction its) (auto simp add: run_iteration_def)

text \<open>
  C5. With at least one batch in a pass over the iterator, the training loop runs
  \<open>total_iteration\<close> iterations without raising; each iteration is its batches in
  order, then its summary, then a save. In the trace a save follows every batch with
  \<open>(batch_index + 1) mod 100 = 0\<close> and every summary, and every save stands right after
  such a batch or after a summary: \<open>encoder.save\<close> is called nowhere else in the loop.
\<close>

theorem checkpointing_periodic:
  assumes "0 < num_batches"
  shows "\<exists>tr. training_loop num_batches [0..<iters] = (tr, None)
      \<and> tr = concat (map (\<lambda>i. batch_loop i [0..<num_batches] @ [Report i, SaveSnapshot])
                       [0..<iters])
      \<and> (\<forall>i b. i < iters \<and> b < num_batches \<longrightarrow> TrainBatch i b \<in> set tr)
      \<and> (\<forall>i. i < iters \<longrightarrow> Report i \<in> set tr)
      \<and> (\<forall>j i b. j < length tr \<and> tr ! j = TrainBatch i b \<and> (b + 1) mod 100 = 0 \<longrightarrow>
            Suc j < length tr \<and> tr ! Suc j = SaveSnapshot)
      \<and> (\<forall>j i. j < length tr \<and> tr ! j = Report i \<longrightarrow>
            Suc j < length tr \<and> tr ! Suc j = SaveSnapshot)
      \<and> (\<forall>j. j < length tr \<and> tr ! j = SaveSnapshot \<longrightarrow>
            0 < j \<and> ((\<exists>i b. tr ! (j - 1) = TrainBatch i b \<and> (b + 1) mod 100 = 0)
                     \<or> (\<exists>i. tr ! (j - 1) = Report i)))"
proof -
  define tr where
    "tr = concat (map (\<lambda>i. batch_loop i [0..<num_batches] @ [Report i, SaveSnapshot])
                    [0..<iters])"
  have run: "training_loop num_batches [0..<iters] = (tr, None)"
    using assms by (simp add: training_loop_trace tr_def)
  have per: "periodic False tr"
    using periodic_iterations [of "[0..<num_batches]" "[0..<iters]" "[]"]
    by (simp add: tr_def)
  have batches: "TrainBatch i b \<in> set tr" if "i < iters" "b < num_batches" for i b
  proof -
    from that(2) have "TrainBatch i b \<in> set (batch_loop i [0..<num_batches])"
      by (intro batch_loop_covers) simp
    with that(1) show ?thesis by (auto simp add: tr_def)
  qed
  have reports: "Report i \<in> set tr" if "i < iters" for i
    using that by (auto simp add: tr_def)
  have after_batch: "Suc j < length tr \<and> tr ! Suc j = SaveSnapshot"
    if "j < length tr" "tr ! j = TrainBatch i b" "(b + 1) mod 100 = 0" for j i b
    using periodic_next [OF per that(1)] that(2,3) by simp
  have after_report: "Suc j < length tr \<and> tr ! Suc j = SaveSnapshot"
    if "j < length tr" "tr ! j = Report i" for j i
    using periodic_next [OF per that(1)] that(2) by simp
  have before_save: "0 < j \<and> ((\<exists>i b. tr ! (j - 1) = TrainBatch i b \<and> (b + 1) mod 100 = 0)
                     \<or> (\<exists>i. tr ! (j - 1) = Report i))"
    if "j < length tr" "tr ! j = SaveSnapshot" for j
    using periodic_prev [OF per that] by (cases "j = 0") (simp_all add: save_due_cases)
  show ?thesis
    unfolding tr_def [symmetric]
  proof (intro exI [of _ tr] conjI)
    show "training_loop num_batches [0..<iters] = (tr, None)" by (rule run)
    show "tr = tr" by (rule refl)
    show "\<forall>i b. i < iters \<and> b < num_batches \<longrightarrow> TrainBatch i b \<in> set tr"
      using batches by blast
    show "\<forall>i. i < iters \<longrightarrow> Report i \<in> set tr"
      using reports by blast
    show "\<forall>j i b. j < length tr \<and> tr ! j = TrainBatch i b \<and> (b + 1) mod 100 = 0 \<longrightarrow>
            Suc j < length tr \<and> tr ! Suc j = SaveSnapshot"
    proof (intro allI impI)
      fix j i b
      assume "j < length tr \<and> tr ! j = TrainBatch i b \<and> (b + 1) mod 100 = 0"
      then show "Suc j < length tr \<and> tr ! Suc j = SaveSnapshot"
        using after_batch [of j i b] by simp
    qed
    show "\<forall>j i. j < length tr \<and> tr ! j = Report i \<longrightarrow>
            Suc j < length tr \<and> tr ! Suc j = SaveSnapshot"
    proof (intro allI impI)
      fix j i
      assume "j < length tr \<and> tr ! j = Report i"
      then show "Suc j < length tr \<and> tr ! Suc j = SaveSnapshot"
        using after_report [of j i] by simp
    qed
    show "\<forall>j. j < length tr \<and> tr ! j = SaveSnapshot \<longrightarrow>
            0 < j \<and> ((\<exists>i b. tr ! (j - 1) = TrainBatch i b \<and> (b + 1) mod 100 = 0)
                     \<or> (\<exists>i. tr ! (j - 1) = Report i))"
    proof (intro allI impI)
      fix j
      assume "j < length tr \<and> tr ! j = SaveSnapshot"
      then show "0 < j \<and> ((\<exists>i b. tr ! (j - 1) = TrainBatch i b \<and> (b + 1) mod 100 = 0)
                     \<or> (\<exists>i. tr ! (j - 1) = Report i))"
        using before_save [of j] by simp
    qed
  qed
qed

theorem checkpointing_periodic_witness:
  "\<exists>tr. training_loop 100 [0..<1] = (tr, None)
      \<and> TrainBatch 0 99 \<in> set tr \<and> Report 0 \<in> set tr"
proof -
  have "0 < (100::nat)" by simp
  from checkpointing_periodic [OF this, of 1] obtain tr where
    "training_loop 100 [0..<1] = (tr, None)"
    "\<forall>i b. i < 1 \<and> b < 100 \<longrightarrow> TrainBatch i b \<in> set tr"
    "\<forall>i. i < 1 \<longrightarrow> Report i \<in> set tr"
    by blast
  then show ?thesis by simp
qed

section \<open>Failures of main\<close>

lemma main_eq: "main a w = (Mkdir (snapshot_path a) # fst (main_body a w), snd (main_body a w))"
  by (simp add: main_def split: option.splits prod.splits)





text \<open>
  C8. When device selection returns (or no device is selected): for every
  \<open>dataset_format\<close> other than "png" and "npy", \<open>main\<close> raises AssertionError having
  called only \<open>os.mkdir\<close> and the device selection, so before any file is loaded; and
  when the dataset directory has no file matching \<open>*.<dataset_format>\<close>, \<open>main\<close>
  raises AssertionError with the same trace, so before any training.
\<close>

theorem main_assertions:
  assumes "0 \<le> gpu_device a \<longrightarrow> use_device w (gpu_device a) = None"
  shows "(dataset_format a \<noteq> ''png'' \<and> dataset_format a \<noteq> ''npy'' \<longrightarrow>
            main a w = (Mkdir (snapshot_path a) #
                          (if 0 \<le> gpu_device a then [UseDevice (gpu_device a)] else []),
                        Some AssertionError))
       \<and> (glob w (dataset_path a) (''*.'' @ dataset_format a) = [] \<longrightarrow>
            main a w = (Mkdir (snapshot_path a) #
                          (if 0 \<le> gpu_device a then [UseDevice (gpu_device a)] else []),
                        Some AssertionError))"
  using assms by (simp add: main_eq main_body_def load_dataset_def)

theorem main_assertions_witness:
  "main (example_args\<lparr>dataset_format := ''jpg'', gpu_device := 0\<rparr>) example_world
     = ([Mkdir ''snapshot'', UseDevice 0], Some AssertionError)
   \<and> main (example_args\<lparr>dataset_format := ''npy''\<rparr>) example_world
     = ([Mkdir ''snapshot''], Some AssertionError)"
  using main_assertions [of "example_args\<lparr>dataset_format := ''jpg'', gpu_device := 0\<rparr>" example_world]
    main_assertions [of "example_args\<lparr>dataset_format := ''npy''\<rparr>" example_world]
  by (simp add: example_args_def example_world_def)






text \<open>
  Two more runs of the example. Without a device (\<open>gpu_device = -1\<close>) \<open>to_gpu\<close> still
  moves the batch to the GPU while \<open>xp\<close> is numpy, and the first batch raises. A
  3-dimensional "npy" array leaves \<open>images.shape[2:]\<close> with one entry, and line 165
  raises IndexError.
\<close>

lemma example_run_without_device:
  "main example_args example_world
     = ([Mkdir ''snapshot'', OpenImage ''a.png'', TrainBatch 0 0], Some (External ''TypeError''))"
  by (simp add: example_args_def example_world_def main_eq main_body_def load_dataset_def
      preprocess_def ndim_def map_nd_def transpose_nd_def run_iteration_def Let_def
      images_shape_def asanyarray_shape_def train_batch_def to_gpu_def)

lemma example_run_npy_3d:
  "main (example_args\<lparr>dataset_format := ''npy'', gpu_device := 0\<rparr>)
     (example_world\<lparr>glob := (\<lambda>dir pattern. [''a.npy'']),
                    np_load := (\<lambda>path. Inr \<lparr>shape = [1, 1, 3], elem = (\<lambda>idx. 0)\<rparr>)\<rparr>)
     = ([Mkdir ''snapshot'', UseDevice 0, NpLoad ''a.npy''], Some IndexError)"
  by (simp add: example_args_def example_world_def main_eq main_body_def load_dataset_def
      preprocess_def ndim_def map_nd_def transpose_nd_def Let_def
      images_shape_def asanyarray_shape_def)

end
